theory Spec2Isabelle
  imports Complex_Main
begin

section \<open>Data model of the dashboard (App.jsx)\<close>

text \<open>
  JavaScript numbers are modelled as real numbers: comparisons, additions and the
  one-decimal rounding are the exact ones. Millisecond timestamps are integers. An object
  used as a dictionary (\<open>deviceData\<close>) is a partial map on its own keys, and a read
  \<open>deviceData[key]\<close> also sees the members that a plain object inherits from
  \<open>Object.prototype\<close> (\<open>getProperty\<close> below). An exception thrown by the source is a
  value of \<open>js_error\<close> on the left of a sum.
\<close>

datatype js_error = TypeError | RangeError

text \<open>\<open>{ min, max }\<close>, one entry of \<open>DEFAULT_THRESHOLDS\<close>.\<close>

record bounds =
  min_th :: real
  max_th :: real

text \<open>\<open>{ temp: {min, max}, humidity: {min, max} }\<close>.\<close>

record thresholds =
  temp_th :: bounds
  humidity_th :: bounds

definition DEFAULT_THRESHOLDS :: thresholds where
  "DEFAULT_THRESHOLDS =
     \<lparr>temp_th = \<lparr>min_th = 18, max_th = 25\<rparr>, humidity_th = \<lparr>min_th = 40, max_th = 60\<rparr>\<rparr>"

text \<open>\<open>{ id, name, status, location }\<close>, an entry of \<open>INITIAL_DEVICES\<close>.\<close>

record device =
  dev_id :: string
  dev_name :: string
  dev_status :: bool
  dev_location :: string

definition INITIAL_DEVICES :: "device list" where
  "INITIAL_DEVICES =
     [\<lparr>dev_id = ''dev-001'', dev_name = ''Server Rack 1'', dev_status = True,
        dev_location = ''Data Center A''\<rparr>,
      \<lparr>dev_id = ''dev-002'', dev_name = ''HVAC Unit 3'', dev_status = True,
        dev_location = ''Warehouse 2''\<rparr>,
      \<lparr>dev_id = ''dev-003'', dev_name = ''Cold Storage A'', dev_status = False,
        dev_location = ''Processing Plant''\<rparr>]"

text \<open>
  The objects that carry a \<open>temp\<close> and a \<open>humidity\<close>; an entry of \<open>deviceData\<close> adds
  \<open>status\<close>.
\<close>

record sample =
  temp :: real
  humidity :: real

record reading = sample +
  status :: bool

type_synonym deviceData = "string \<rightharpoonup> reading"

text \<open>
  The objects that \<open>getDeviceCurrentData\<close> hands out: \<open>temp\<close>, \<open>humidity\<close> and
  \<open>status\<close>, each of which can be \<open>undefined\<close> (\<open>None\<close>), and the two alert flags, which
  are absent (\<open>None\<close>) in the object returned for a missing entry. The fields are named
  \<open>temp_opt\<close>, \<open>humidity_opt\<close> and \<open>status_opt\<close> here, apart from those of a reading.
\<close>

record shown =
  temp_opt :: "real option"
  humidity_opt :: "real option"

record current = shown +
  status_opt :: "bool option"
  tempAlert :: "bool option"
  humidityAlert :: "bool option"

text \<open>
  The string-keyed members of \<open>Object.prototype\<close> (ECMA-262 with its Annex B). Every
  one of them is a function, but \<open>__proto__\<close>, which reads as the prototype object: all
  are truthy, and none has a \<open>temp\<close>, a \<open>humidity\<close>, a \<open>status\<close> or an enumerable
  property of its own.
\<close>

definition objectPrototypeKeys :: "string list" where
  "objectPrototypeKeys =
     [''constructor'', ''__defineGetter__'', ''__defineSetter__'', ''hasOwnProperty'',
      ''__lookupGetter__'', ''__lookupSetter__'', ''isPrototypeOf'', ''propertyIsEnumerable'',
      ''toString'', ''valueOf'', ''__proto__'', ''toLocaleString'']"

text \<open>
  What \<open>deviceData[key]\<close> reads: the entry of the key when the object has one of its
  own, else the inherited member when the key names one, else \<open>undefined\<close>.
\<close>

datatype property = Own reading | Inherited | Undefined

definition getProperty :: "deviceData \<Rightarrow> string \<Rightarrow> property" where
  "getProperty deviceData key =
     (case deviceData key of
        Some d \<Rightarrow> Own d
      | None \<Rightarrow> (if key \<in> set objectPrototypeKeys then Inherited else Undefined))"

section \<open>Alert evaluation: \<open>getDeviceCurrentData\<close>\<close>

text \<open>
  \<open>if (!data)\<close> lets every object pass, so an inherited member goes on to the second
  \<open>return\<close>: its \<open>temp\<close>, \<open>humidity\<close> and \<open>status\<close> are \<open>undefined\<close>, and both
  comparisons of \<open>undefined\<close> with a number are false.
\<close>

definition getDeviceCurrentData :: "deviceData \<Rightarrow> thresholds \<Rightarrow> string \<Rightarrow> current" where
  "getDeviceCurrentData deviceData thresholds deviceId =
     (case getProperty deviceData deviceId of
        Undefined \<Rightarrow>
          \<lparr>temp_opt = Some 0, humidity_opt = Some 0, status_opt = Some False,
           tempAlert = None, humidityAlert = None\<rparr>
      | Own data \<Rightarrow>
          \<lparr>temp_opt = Some (temp data), humidity_opt = Some (humidity data),
           status_opt = Some (status data),
           tempAlert = Some (temp data > max_th (temp_th thresholds)
                             \<or> temp data < min_th (temp_th thresholds)),
           humidityAlert = Some (humidity data > max_th (humidity_th thresholds)
                                 \<or> humidity data < min_th (humidity_th thresholds))\<rparr>
      | Inherited \<Rightarrow>
          \<lparr>temp_opt = None, humidity_opt = None, status_opt = None,
           tempAlert = Some False, humidityAlert = Some False\<rparr>)"

section \<open>Power toggle: \<open>toggleStatus\<close>\<close>

text \<open>
  The mapping that the updater returns: the entries of a \<open>deviceData\<close>, and in one case
  one more entry that has a \<open>status\<close> and no values.
\<close>

datatype newDeviceData = Readings deviceData | ReadingsAnd deviceData string bool

text \<open>
  The state updater reads \<open>prevData[deviceId].status\<close> first. Without an entry and
  without an inherited member that is a property read on \<open>undefined\<close>, which throws a
  TypeError. On an inherited member the read gives \<open>undefined\<close>, \<open>newStatus\<close> is
  \<open>true\<close>, the spread of the member copies nothing, and the computed key adds the entry
  \<open>{ status: true }\<close> to the copy of \<open>prevData\<close>.
\<close>

definition toggleStatus :: "string \<Rightarrow> deviceData \<Rightarrow> js_error + newDeviceData" where
  "toggleStatus deviceId prevData =
     (case getProperty prevData deviceId of
        Undefined \<Rightarrow> Inl TypeError
      | Own d \<Rightarrow> (let newStatus = \<not> status d
                 in Inr (Readings (prevData(deviceId \<mapsto> d\<lparr>status := newStatus\<rparr>))))
      | Inherited \<Rightarrow> (let newStatus = True
                      in Inr (ReadingsAnd prevData deviceId newStatus)))"

section \<open>Telemetry simulation: the interval callback of \<open>useIoTData\<close>\<close>

text \<open>
  \<open>parseFloat(v.toFixed(1))\<close>. \<open>toFixed\<close> takes the integer \<open>n\<close> with \<open>n / 10\<close> closest to
  the magnitude of \<open>v\<close>, the larger one on a tie, and keeps the sign; from \<open>10^21\<close> on it
  prints the number itself, which \<open>parseFloat\<close> reads back.
\<close>

definition toFixed1 :: "real \<Rightarrow> real" where
  "toFixed1 v =
     (if 10 ^ 21 \<le> \<bar>v\<bar> then v
      else if v < 0 then - (of_int \<lfloor>(- v) * 10 + 1 / 2\<rfloor> / 10)
      else of_int \<lfloor>v * 10 + 1 / 2\<rfloor> / 10)"

text \<open>
  \<open>Math.max(lo, Math.min(hi, x))\<close>, the nesting the random walk uses for both values.
\<close>

definition clamp :: "real \<Rightarrow> real \<Rightarrow> real \<Rightarrow> real" where
  "clamp x lo hi = max lo (min hi x)"

text \<open>
  \<open>Math.random()\<close> is a stream of draws \<open>random 0, random 1, ...\<close> in \<open>[0, 1)\<close>; the state
  carries the number of draws made so far.

  The body of \<open>initialDevices.forEach\<close> for one device: the random walk of a powered
  entry, then the rounding of both values, which stands after the \<open>if\<close> and so runs for
  every entry. Without an entry the pass throws a TypeError: at
  \<open>newData[device.id].status\<close> when the read gives \<open>undefined\<close>, and at \<open>toFixed\<close> of the
  \<open>undefined\<close> \<open>temp\<close> of an inherited member otherwise, before anything is written.
\<close>

definition tickDevice ::
  "thresholds \<Rightarrow> (nat \<Rightarrow> real) \<Rightarrow> device \<Rightarrow> deviceData \<times> nat \<Rightarrow> js_error + deviceData \<times> nat"
where
  "tickDevice thresholds random device st =
     (case st of (newData, k) \<Rightarrow>
        (case newData (dev_id device) of
           None \<Rightarrow> Inl TypeError
         | Some d \<Rightarrow>
             (let (d1, k1) =
                    (if status d
                     then (d\<lparr>temp := max (min_th (temp_th thresholds) - 5)
                                       (min (max_th (temp_th thresholds) + 5)
                                          (temp d + (random k * 1 - 0.5))),
                             humidity := max (min_th (humidity_th thresholds) - 10)
                                           (min (max_th (humidity_th thresholds) + 10)
                                              (humidity d + (random (k + 1) * 2 - 1)))\<rparr>,
                           k + 2)
                     else (d, k));
                  d2 = d1\<lparr>temp := toFixed1 (temp d1), humidity := toFixed1 (humidity d1)\<rparr>
              in Inr (newData(dev_id device \<mapsto> d2), k1))))"

fun forEachDevice ::
  "thresholds \<Rightarrow> (nat \<Rightarrow> real) \<Rightarrow> device list \<Rightarrow> deviceData \<times> nat \<Rightarrow> js_error + deviceData \<times> nat"
where
  "forEachDevice thresholds random [] st = Inr st"
| "forEachDevice thresholds random (device # rest) st =
     (case tickDevice thresholds random device st of
        Inl e \<Rightarrow> Inl e
      | Inr st' \<Rightarrow> forEachDevice thresholds random rest st')"

text \<open>One tick: the updater passed to \<open>setDeviceData\<close>, from the previous mapping to the new one.\<close>

definition tick ::
  "thresholds \<Rightarrow> (nat \<Rightarrow> real) \<Rightarrow> device list \<Rightarrow> deviceData \<Rightarrow> nat \<Rightarrow> js_error + deviceData \<times> nat"
where
  "tick thresholds random initialDevices prevData k =
     forEachDevice thresholds random initialDevices (prevData, k)"

section \<open>Threshold settings: \<open>handleSave\<close> and \<open>setThresholds\<close>\<close>

text \<open>
  The state the save handler works on: the form's \<open>localThresholds\<close>, the active
  \<open>thresholds\<close> of the dashboard context, the item \<open>iotThresholds\<close> of the local storage
  (its JSON text stands for the object it encodes), and the two flags of the form. The
  timer that clears \<open>success\<close> three seconds later is left out.
\<close>

record settings =
  localThresholds :: thresholds
  thresholdsState :: thresholds
  iotThresholds :: "thresholds option"
  validationError :: "string option"
  success :: bool

definition setThresholds :: "thresholds \<Rightarrow> settings \<Rightarrow> settings" where
  "setThresholds newThresholds s =
     s\<lparr>thresholdsState := newThresholds, iotThresholds := Some newThresholds\<rparr>"

definition handleSave :: "settings \<Rightarrow> settings" where
  "handleSave s0 =
     (let s = s0\<lparr>validationError := None\<rparr>
      in if max_th (temp_th (localThresholds s)) \<le> min_th (temp_th (localThresholds s))
         then s\<lparr>validationError :=
                  Some ''Temperature max limit must be greater than min limit.''\<rparr>
         else if max_th (humidity_th (localThresholds s))
                   \<le> min_th (humidity_th (localThresholds s))
         then s\<lparr>validationError :=
                  Some ''Humidity max limit must be greater than min limit.''\<rparr>
         else (setThresholds (localThresholds s) s)\<lparr>success := True\<rparr>)"

section \<open>Live history buffer of \<open>LiveMonitorTab\<close>\<close>

text \<open>\<open>xs.slice(start)\<close>: a negative start counts from the end, and both are cut to the array.\<close>

definition slice :: "int \<Rightarrow> 'a list \<Rightarrow> 'a list" where
  "slice start xs =
     (let len = int (length xs);
          k = (if start < 0 then max (len + start) 0 else min start len)
      in drop (nat k) xs)"

record livePoint = shown +
  time :: string

text \<open>
  The updater passed to \<open>setLiveDataHistory\<close>; \<open>now\<close> is the label that
  \<open>toLocaleTimeString\<close> gives the clock.
\<close>

definition newDataPoint :: "deviceData \<Rightarrow> thresholds \<Rightarrow> string \<Rightarrow> string \<Rightarrow> livePoint" where
  "newDataPoint deviceData thresholds activeDeviceId now =
     \<lparr>temp_opt = temp_opt (getDeviceCurrentData deviceData thresholds activeDeviceId),
      humidity_opt = humidity_opt (getDeviceCurrentData deviceData thresholds activeDeviceId),
      time = now\<rparr>"

definition liveUpdate ::
  "deviceData \<Rightarrow> thresholds \<Rightarrow> string \<Rightarrow> string \<Rightarrow> livePoint list \<Rightarrow> livePoint list"
where
  "liveUpdate deviceData thresholds activeDeviceId now prev =
     (let newHistory = slice (- 9) prev @ [newDataPoint deviceData thresholds activeDeviceId now]
      in newHistory)"

text \<open>
  The buffer after a run of interval callbacks, from the initial \<open>useState([])\<close>; each
  callback sees the readings, thresholds, selected device and clock label of its moment.
\<close>

type_synonym liveInput = "deviceData \<times> thresholds \<times> string \<times> string"

definition pointOf :: "liveInput \<Rightarrow> livePoint" where
  "pointOf i = (case i of (deviceData, thresholds, activeDeviceId, now) \<Rightarrow>
                  newDataPoint deviceData thresholds activeDeviceId now)"

definition liveStep :: "livePoint list \<Rightarrow> liveInput \<Rightarrow> livePoint list" where
  "liveStep prev i = (case i of (deviceData, thresholds, activeDeviceId, now) \<Rightarrow>
                        liveUpdate deviceData thresholds activeDeviceId now prev)"

definition liveDataHistory :: "liveInput list \<Rightarrow> livePoint list" where
  "liveDataHistory inputs = foldl liveStep [] inputs"

text \<open>
  The initial state of \<open>deviceData\<close>: \<open>initialDevices.forEach\<close> gives every device an
  entry around 22.5 and 50, taking two draws each, and copies its \<open>status\<close>. The
  assignment \<open>initialData[device.id] = ...\<close> adds no entry when the id is \<open>__proto__\<close>:
  it runs the setter that \<open>Object.prototype\<close> has under that name. The prototype that
  the setter installs is not part of the model; the copy \<open>{ ...prevData }\<close> of the first
  tick is a plain object again.
\<close>

fun initialForEach :: "(nat \<Rightarrow> real) \<Rightarrow> device list \<Rightarrow> deviceData \<times> nat \<Rightarrow> deviceData \<times> nat" where
  "initialForEach random [] st = st"
| "initialForEach random (device # rest) (initialData, k) =
     initialForEach random rest
       (if dev_id device = ''__proto__'' then initialData
        else initialData(dev_id device \<mapsto>
               \<lparr>temp = 22.5 + (random k * 5 - 2.5),
                humidity = 50 + (random (k + 1) * 10 - 5),
                status = dev_status device\<rparr>),
        k + 2)"

definition initialDeviceData :: "(nat \<Rightarrow> real) \<Rightarrow> device list \<Rightarrow> deviceData \<times> nat" where
  "initialDeviceData random initialDevices = initialForEach random initialDevices (Map.empty, 0)"

section \<open>Historical series: \<open>createHistoricalData\<close>\<close>

text \<open>
  A point of the series is \<open>{ timestamp, time, temp, humidity }\<close>; the export keeps
  \<open>{ timestamp, temp, humidity }\<close>.
\<close>

record stamped = sample +
  timestamp :: int

record historyPoint = stamped +
  time :: string

text \<open>The \<open>switch\<close> on the range, with its \<open>default\<close>, and the step between two points.\<close>

definition historyCount :: "string \<Rightarrow> nat" where
  "historyCount range' =
     (if range' = ''7d'' then 168
      else if range' = ''3m'' then 30 * 3
      else if range' = ''24h'' then 24
      else 24)"

definition historyStep :: "string \<Rightarrow> int" where
  "historyStep range' =
     (if range' = ''3m'' then 86400000 else if range' = ''7d'' then 3600000 else 3600000)"

text \<open>
  The \<open>for\<close> loop, from \<open>i\<close> on: each pass appends one point and takes two draws.
  \<open>toLocaleTimeString\<close> is the clock label of the host's locale, a parameter.
\<close>

function historyLoop ::
  "(int \<Rightarrow> string) \<Rightarrow> (nat \<Rightarrow> real) \<Rightarrow> int \<Rightarrow> int \<Rightarrow> nat \<Rightarrow> nat \<Rightarrow> nat
     \<Rightarrow> historyPoint list \<Rightarrow> historyPoint list"
where
  "historyLoop toLocaleTimeString random currentTimestamp step count i k data =
     (if i < count
      then (let timestamp = currentTimestamp - (int count - int i) * step
            in historyLoop toLocaleTimeString random currentTimestamp step count (i + 1) (k + 2)
                 (data @ [\<lparr>temp = toFixed1 (15 + random k * 15),
                            humidity = toFixed1 (30 + random (k + 1) * 45),
                            timestamp = timestamp,
                            time = toLocaleTimeString timestamp\<rparr>]))
      else data)"
  by pat_completeness auto
termination
  by (relation "measure (\<lambda>(f, r, t, s, count, i, k, data). count - i)") auto

declare historyLoop.simps [simp del]

text \<open>\<open>now\<close> is the value of \<open>Date.now()\<close>, \<open>k\<close> the number of draws made before the call.\<close>

definition createHistoricalData ::
  "(int \<Rightarrow> string) \<Rightarrow> (nat \<Rightarrow> real) \<Rightarrow> nat \<Rightarrow> int \<Rightarrow> string \<Rightarrow> historyPoint list"
where
  "createHistoricalData toLocaleTimeString random k now range' =
     historyLoop toLocaleTimeString random now (historyStep range') (historyCount range') 0 k []"

section \<open>Host functions of the export\<close>

text \<open>
  \<open>new Date(t).toISOString()\<close> for an integral time value \<open>t\<close> in milliseconds, after
  ECMA-262: a time value beyond 8.64e15 in magnitude is an invalid date, on which
  \<open>toISOString\<close> throws a RangeError; otherwise the text is
  \<open>YYYY-MM-DDTHH:mm:ss.sssZ\<close> in UTC, the year with a sign and six digits outside
  0..9999. \<open>civilFromDays\<close> is the proleptic Gregorian date of a day number counted
  from 1 January 1970.
\<close>

definition digitChar :: "nat \<Rightarrow> char" where
  "digitChar n = ''0123456789'' ! (n mod 10)"

definition twoDigits :: "nat \<Rightarrow> string" where
  "twoDigits n = [digitChar (n div 10), digitChar n]"

definition threeDigits :: "nat \<Rightarrow> string" where
  "threeDigits n = digitChar (n div 100) # twoDigits n"

definition fourDigits :: "nat \<Rightarrow> string" where
  "fourDigits n = digitChar (n div 1000) # threeDigits n"

definition sixDigits :: "nat \<Rightarrow> string" where
  "sixDigits n = digitChar (n div 100000) # digitChar (n div 10000) # fourDigits n"

definition civilFromDays :: "int \<Rightarrow> int \<times> nat \<times> nat" where
  "civilFromDays days =
     (let z = days + 719468;
          era = z div 146097;
          doe = z mod 146097;
          yoe = (doe - doe div 1460 + doe div 36524 - doe div 146096) div 365;
          doy = doe - (365 * yoe + yoe div 4 - yoe div 100);
          mp = (5 * doy + 2) div 153;
          d = doy - (153 * mp + 2) div 5 + 1;
          m = (if mp < 10 then mp + 3 else mp - 9);
          y = yoe + era * 400 + (if m \<le> 2 then 1 else 0)
      in (y, nat m, nat d))"

definition yearString :: "int \<Rightarrow> string" where
  "yearString y =
     (if 0 \<le> y \<and> y \<le> 9999 then fourDigits (nat y)
      else (if y < 0 then ''-'' else ''+'') @ sixDigits (nat \<bar>y\<bar>))"

definition isoString :: "int \<Rightarrow> string" where
  "isoString t =
     (let (y, m, d) = civilFromDays (t div 86400000);
          ms = nat (t mod 86400000)
      in yearString y @ ''-'' @ twoDigits m @ ''-'' @ twoDigits d @ ''T''
         @ twoDigits (ms div 3600000) @ '':'' @ twoDigits (ms div 60000 mod 60)
         @ '':'' @ twoDigits (ms div 1000 mod 60) @ ''.'' @ threeDigits (ms mod 1000)
         @ ''Z'')"

definition Date_toISOString :: "int \<Rightarrow> js_error + string" where
  "Date_toISOString t =
     (if 8640000000000000 < \<bar>t\<bar> then Inl RangeError else Inr (isoString t))"

text \<open>
  The text that \<open>join\<close> gives a number, after \<open>Number::toString\<close> of ECMA-262, for a
  number with a finite decimal expansion (the expansion is cut after 400 fractional
  digits otherwise): the digits without trailing zeros, in plain notation from \<open>1e-6\<close>
  up to \<open>1e21\<close> and in exponent notation outside. The export takes the rendering of
  numbers as a parameter; this one is used for the concrete example.
\<close>

fun natDigits :: "nat \<Rightarrow> string" where
  "natDigits n = (if n < 10 then [digitChar n] else natDigits (n div 10) @ [digitChar n])"

declare natDigits.simps [simp del]

fun fracDigits :: "nat \<Rightarrow> real \<Rightarrow> string" where
  "fracDigits fuel f =
     (if f = 0 \<or> fuel = 0 then []
      else digitChar (nat \<lfloor>f * 10\<rfloor>) # fracDigits (fuel - 1) (f * 10 - of_int \<lfloor>f * 10\<rfloor>))"

declare fracDigits.simps [simp del]

definition stripZeros :: "string \<Rightarrow> string" where
  "stripZeros ds = rev (dropWhile (\<lambda>c. c = CHR ''0'') (rev ds))"

definition scientific :: "string \<Rightarrow> string" where
  "scientific sig = (case sig of [] \<Rightarrow> [] | c # cs \<Rightarrow> (if cs = [] then [c] else c # ''.'' @ cs))"

definition Number_toString :: "real \<Rightarrow> string" where
  "Number_toString x =
     (if x = 0 then ''0''
      else (let a = \<bar>x\<bar>;
                sign = (if x < 0 then ''-'' else []);
                whole = natDigits (nat \<lfloor>a\<rfloor>);
                fraction = fracDigits 400 (a - of_int \<lfloor>a\<rfloor>)
            in if 10 ^ 21 \<le> a
               then sign @ scientific (stripZeros (whole @ fraction))
                      @ ''e+'' @ natDigits (length whole - 1)
               else if a < 1 / 10 ^ 6
               then sign @ scientific (dropWhile (\<lambda>c. c = CHR ''0'') fraction)
                      @ ''e-'' @ natDigits (length (takeWhile (\<lambda>c. c = CHR ''0'') fraction) + 1)
               else sign @ whole @ (if fraction = [] then [] else ''.'' @ fraction)))"

section \<open>CSV export: \<open>convertToCsv\<close>\<close>

text \<open>\<open>xs.join(sep)\<close> on texts.\<close>

fun join :: "string \<Rightarrow> string list \<Rightarrow> string" where
  "join sep [] = []"
| "join sep [x] = x"
| "join sep (x # y # ys) = x @ sep @ join sep (y # ys)"

text \<open>
  \<open>data.map(d => [new Date(d.timestamp).toISOString(), d.temp, d.humidity])\<close>: a row
  holds the text of the timestamp and the two numbers as they are. The first invalid
  timestamp ends the call with its RangeError.
\<close>

type_synonym csvRow = "string \<times> real \<times> real"

fun mapRows :: "'a stamped_scheme list \<Rightarrow> js_error + csvRow list" where
  "mapRows [] = Inr []"
| "mapRows (d # ds) =
     (case Date_toISOString (timestamp d) of
        Inl e \<Rightarrow> Inl e
      | Inr isoText \<Rightarrow>
          (case mapRows ds of
             Inl e \<Rightarrow> Inl e
           | Inr rows \<Rightarrow> Inr ((isoText, temp d, humidity d) # rows)))"

text \<open>\<open>row.join(',')\<close>, which turns the two numbers into text.\<close>

definition rowJoin :: "(real \<Rightarrow> string) \<Rightarrow> csvRow \<Rightarrow> string" where
  "rowJoin numberToString row =
     (case row of (isoText, t, h) \<Rightarrow> join '','' [isoText, numberToString t, numberToString h])"

definition convertToCsv :: "(real \<Rightarrow> string) \<Rightarrow> 'a stamped_scheme list \<Rightarrow> js_error + string" where
  "convertToCsv numberToString data =
     (if length data = 0 then Inr []
      else (let headers = [''Timestamp'', ''Temperature'', ''Humidity'']
            in case mapRows data of
                 Inl e \<Rightarrow> Inl e
               | Inr rows \<Rightarrow>
                   Inr (foldl (\<lambda>csvContent row. csvContent @ rowJoin numberToString row @ [CHR 0x0A])
                          (join '','' headers @ [CHR 0x0A]) rows)))"

section \<open>Names used in the statements\<close>

text \<open>
  The entry that one pass of the interval callback leaves for a device whose entry was
  \<open>d\<close>, when the two draws of that pass are \<open>r\<close> and \<open>h\<close>: \<open>tickDevice\<close> written
  as a function of the entry (lemma \<open>tickDevice_eq\<close>).
\<close>

definition tickReading :: "thresholds \<Rightarrow> real \<Rightarrow> real \<Rightarrow> reading \<Rightarrow> reading" where
  "tickReading thresholds r h d =
     (if status d
      then d\<lparr>temp := toFixed1 (clamp (temp d + (r - 1 / 2))
                         (min_th (temp_th thresholds) - 5) (max_th (temp_th thresholds) + 5)),
             humidity := toFixed1 (clamp (humidity d + (2 * h - 1))
                         (min_th (humidity_th thresholds) - 10)
                         (max_th (humidity_th thresholds) + 10))\<rparr>
      else d\<lparr>temp := toFixed1 (temp d), humidity := toFixed1 (humidity d)\<rparr>)"

text \<open>The order \<open>min < max\<close> of both ranges of a threshold set.\<close>

definition ordered :: "thresholds \<Rightarrow> bool" where
  "ordered t = (min_th (temp_th t) < max_th (temp_th t)
                \<and> min_th (humidity_th t) < max_th (humidity_th t))"

text \<open>The two messages of \<open>handleSave\<close>.\<close>

definition temperatureMessage :: string where
  "temperatureMessage = ''Temperature max limit must be greater than min limit.''"

definition humidityMessage :: string where
  "humidityMessage = ''Humidity max limit must be greater than min limit.''"

text \<open>Concrete inputs of the examples.\<close>

definition sampleData :: deviceData where
  "sampleData =
     [''dev-001'' \<mapsto> \<lparr>temp = 18, humidity = 60, status = True\<rparr>,
      ''dev-002'' \<mapsto> \<lparr>temp = 25.1, humidity = 39.9, status = True\<rparr>,
      ''dev-003'' \<mapsto> \<lparr>temp = 22.5, humidity = 50, status = False\<rparr>]"

definition invalidCandidate :: settings where
  "invalidCandidate =
     \<lparr>localThresholds = \<lparr>temp_th = \<lparr>min_th = 25, max_th = 18\<rparr>,
                          humidity_th = \<lparr>min_th = 60, max_th = 40\<rparr>\<rparr>,
      thresholdsState = DEFAULT_THRESHOLDS, iotThresholds = None,
      validationError = None, success = False\<rparr>"

definition validCandidate :: settings where
  "validCandidate =
     \<lparr>localThresholds = \<lparr>temp_th = \<lparr>min_th = 16, max_th = 27.5\<rparr>,
                          humidity_th = \<lparr>min_th = 35, max_th = 65\<rparr>\<rparr>,
      thresholdsState = DEFAULT_THRESHOLDS, iotThresholds = None,
      validationError = None, success = False\<rparr>"

definition offGridThresholds :: thresholds where
  "offGridThresholds =
     \<lparr>temp_th = \<lparr>min_th = 27.94, max_th = 30\<rparr>, humidity_th = \<lparr>min_th = 40, max_th = 60\<rparr>\<rparr>"

definition firstDevice :: device where
  "firstDevice = \<lparr>dev_id = ''dev-001'', dev_name = ''Server Rack 1'', dev_status = True,
        dev_location = ''Data Center A''\<rparr>"

definition thirdDevice :: device where
  "thirdDevice = \<lparr>dev_id = ''dev-003'', dev_name = ''Cold Storage A'', dev_status = False,
        dev_location = ''Processing Plant''\<rparr>"

text \<open>
  The point that pass \<open>i\<close> of the loop of \<open>createHistoricalData\<close> appends, when \<open>k\<close>
  draws were made before the loop (lemma \<open>historyLoop_eq\<close>).
\<close>

definition historyPointAt ::
  "(int \<Rightarrow> string) \<Rightarrow> (nat \<Rightarrow> real) \<Rightarrow> int \<Rightarrow> int \<Rightarrow> nat \<Rightarrow> nat \<Rightarrow> nat \<Rightarrow> historyPoint"
where
  "historyPointAt toLocaleTimeString random currentTimestamp step count k i =
     \<lparr>temp = toFixed1 (15 + random (k + 2 * i) * 15),
      humidity = toFixed1 (30 + random (k + 2 * i + 1) * 45),
      timestamp = currentTimestamp - (int count - int i) * step,
      time = toLocaleTimeString (currentTimestamp - (int count - int i) * step)\<rparr>"

text \<open>
  One line of the export: the ISO text of the timestamp, the two numbers as the host
  prints them, commas between and a newline after.
\<close>

definition csvLine :: "(real \<Rightarrow> string) \<Rightarrow> 'a stamped_scheme \<Rightarrow> string" where
  "csvLine numberToString d =
     isoString (timestamp d) @ '','' @ numberToString (temp d) @ '','' @ numberToString (humidity d)
       @ [CHR 0x0A]"

definition epochRow :: stamped where
  "epochRow = \<lparr>temp = 20, humidity = 50, timestamp = 0\<rparr>"

section \<open>Alerts\<close>

text \<open>
  The active threshold set keeps \<open>min < max\<close> for both metrics: the default set has it,
  and \<open>handleSave\<close> replaces the active set only by a candidate that has it.
\<close>

lemma DEFAULT_THRESHOLDS_ordered: "ordered DEFAULT_THRESHOLDS"
  by (simp add: ordered_def DEFAULT_THRESHOLDS_def)

lemma handleSave_keeps_ordered:
  "ordered (thresholdsState s) \<Longrightarrow> ordered (thresholdsState (handleSave s))"
  by (simp add: ordered_def handleSave_def setThresholds_def Let_def)

text \<open>
  Claim C1. For a device that has a reading, each alert flag is set exactly when the value
  is strictly below the minimum or strictly above the maximum of its metric. A value equal
  to the minimum or to the maximum therefore does not alert, for every threshold set whose
  minimum is not above its maximum, as it is in every active threshold set (lemmas
  \<open>DEFAULT_THRESHOLDS_ordered\<close> and \<open>handleSave_keeps_ordered\<close>). Both metrics.
\<close>

theorem alert_iff_strictly_outside:
  "deviceData deviceId = Some d \<Longrightarrow>
     tempAlert (getDeviceCurrentData deviceData thresholds deviceId)
       = Some (temp d < min_th (temp_th thresholds) \<or> temp d > max_th (temp_th thresholds))
   \<and> humidityAlert (getDeviceCurrentData deviceData thresholds deviceId)
       = Some (humidity d < min_th (humidity_th thresholds)
               \<or> humidity d > max_th (humidity_th thresholds))
   \<and> (min_th (temp_th thresholds) \<le> max_th (temp_th thresholds)
        \<and> (temp d = min_th (temp_th thresholds) \<or> temp d = max_th (temp_th thresholds))
        \<longrightarrow> tempAlert (getDeviceCurrentData deviceData thresholds deviceId) = Some False)
   \<and> (min_th (humidity_th thresholds) \<le> max_th (humidity_th thresholds)
        \<and> (humidity d = min_th (humidity_th thresholds)
             \<or> humidity d = max_th (humidity_th thresholds))
        \<longrightarrow> humidityAlert (getDeviceCurrentData deviceData thresholds deviceId) = Some False)"
  by (auto simp: getDeviceCurrentData_def getProperty_def)

text \<open>
  With the default thresholds 18..25 and 40..60: a reading of 18 and 60 sits on a bound
  of each metric and raises no alert; 25.1 and 39.9 raise both.
\<close>

theorem alert_iff_strictly_outside_witness:
  "tempAlert (getDeviceCurrentData sampleData DEFAULT_THRESHOLDS ''dev-001'') = Some False
   \<and> humidityAlert (getDeviceCurrentData sampleData DEFAULT_THRESHOLDS ''dev-001'') = Some False
   \<and> tempAlert (getDeviceCurrentData sampleData DEFAULT_THRESHOLDS ''dev-002'') = Some True
   \<and> humidityAlert (getDeviceCurrentData sampleData DEFAULT_THRESHOLDS ''dev-002'') = Some True"
  using alert_iff_strictly_outside
          [of sampleData "''dev-001''" "\<lparr>temp = 18, humidity = 60, status = True\<rparr>"
              DEFAULT_THRESHOLDS]
        alert_iff_strictly_outside
          [of sampleData "''dev-002''" "\<lparr>temp = 25.1, humidity = 39.9, status = True\<rparr>"
              DEFAULT_THRESHOLDS]
  by (simp add: sampleData_def DEFAULT_THRESHOLDS_def)

text \<open>
  For an id that has no reading and does not name a member of \<open>Object.prototype\<close>,
  \<open>getDeviceCurrentData\<close> returns temperature 0, humidity 0, status off and neither alert
  flag set. For an id that has no reading and names such a member it returns the second
  object, with the three values \<open>undefined\<close> and both flags false.
\<close>

lemma missing_reading_neutral:
  "deviceData deviceId = None \<Longrightarrow> deviceId \<notin> set objectPrototypeKeys \<Longrightarrow>
     getDeviceCurrentData deviceData thresholds deviceId
       = \<lparr>temp_opt = Some 0, humidity_opt = Some 0, status_opt = Some False,
          tempAlert = None, humidityAlert = None\<rparr>"
  by (simp add: getDeviceCurrentData_def getProperty_def)

lemma missing_reading_inherited:
  "deviceData deviceId = None \<Longrightarrow> deviceId \<in> set objectPrototypeKeys \<Longrightarrow>
     getDeviceCurrentData deviceData thresholds deviceId
       = \<lparr>temp_opt = None, humidity_opt = None, status_opt = None,
          tempAlert = Some False, humidityAlert = Some False\<rparr>"
  by (simp add: getDeviceCurrentData_def getProperty_def)

lemma missing_reading_example:
  "sampleData ''dev-999'' = None
   \<and> getDeviceCurrentData sampleData DEFAULT_THRESHOLDS ''dev-999''
       = \<lparr>temp_opt = Some 0, humidity_opt = Some 0, status_opt = Some False,
          tempAlert = None, humidityAlert = None\<rparr>"
  by (simp add: getDeviceCurrentData_def getProperty_def sampleData_def objectPrototypeKeys_def)

text \<open>
  Claim C7, at the id \<open>constructor\<close>. The claim says that every id without a reading
  gets temperature 0, humidity 0 and status off. The sample mapping has no reading under
  \<open>constructor\<close>, but the read finds the inherited function of that name, the guard
  \<open>if (!data)\<close> lets it pass, and the object returned has no temperature, no humidity and
  no status (all three \<open>undefined\<close>) and both alert flags false.
\<close>

theorem getDeviceCurrentData_inherited_member:
  "sampleData ''constructor'' = None
   \<and> getDeviceCurrentData sampleData DEFAULT_THRESHOLDS ''constructor''
       = \<lparr>temp_opt = None, humidity_opt = None, status_opt = None,
          tempAlert = Some False, humidityAlert = Some False\<rparr>"
  by (simp add: getDeviceCurrentData_def getProperty_def sampleData_def objectPrototypeKeys_def)

section \<open>Power toggle\<close>

text \<open>
  For an id that has an entry, \<open>toggleStatus\<close> returns a mapping in which that entry has
  its \<open>status\<close> negated and its values kept, and every other entry is the old one. For
  an id without an entry that names a member of \<open>Object.prototype\<close> it returns the old
  entries and one more, \<open>{ status: true }\<close>, under that id.
\<close>

lemma toggleStatus_known:
  "prevData deviceId = Some d \<Longrightarrow>
     \<exists>newData. toggleStatus deviceId prevData = Inr (Readings newData)
       \<and> newData deviceId = Some (d\<lparr>status := \<not> status d\<rparr>)
       \<and> (\<forall>other. other \<noteq> deviceId \<longrightarrow> newData other = prevData other)"
  by (simp add: toggleStatus_def getProperty_def)

lemma toggleStatus_inherited:
  "prevData deviceId = None \<Longrightarrow> deviceId \<in> set objectPrototypeKeys \<Longrightarrow>
     toggleStatus deviceId prevData = Inr (ReadingsAnd prevData deviceId True)"
  by (simp add: toggleStatus_def getProperty_def)

lemma toggleStatus_unknown:
  "prevData deviceId = None \<Longrightarrow> deviceId \<notin> set objectPrototypeKeys \<Longrightarrow>
     toggleStatus deviceId prevData = Inl TypeError"
  by (simp add: toggleStatus_def getProperty_def)

text \<open>
  Claim C8, at an id without an entry. The claim says the call leaves the state as it is;
  the updater throws a TypeError instead, since it reads \<open>status\<close> of the missing entry
  before it builds the new mapping.
\<close>

theorem toggleStatus_unknown_throws:
  "toggleStatus ''dev-999'' sampleData = Inl TypeError"
  by (simp add: toggleStatus_def getProperty_def sampleData_def objectPrototypeKeys_def)

section \<open>Threshold settings\<close>

lemma messages_differ: "temperatureMessage \<noteq> humidityMessage"
  by (simp add: temperatureMessage_def humidityMessage_def)

text \<open>
  Claim C5. Saving fails, with a validation error, exactly when the candidate's
  temperature maximum is not above its minimum or its humidity maximum is not above its
  minimum. The error is one of the two messages and names a metric whose range is
  invalid. On a failure the active threshold set and the stored one are as before; on a
  success the candidate is the active set and the stored one.
\<close>

theorem handleSave_validates:
  "(validationError (handleSave s) \<noteq> None)
     = (max_th (temp_th (localThresholds s)) \<le> min_th (temp_th (localThresholds s))
        \<or> max_th (humidity_th (localThresholds s)) \<le> min_th (humidity_th (localThresholds s)))
   \<and> (validationError (handleSave s) = None
        \<or> validationError (handleSave s) = Some temperatureMessage
        \<or> validationError (handleSave s) = Some humidityMessage)
   \<and> (validationError (handleSave s) = Some temperatureMessage
        \<longrightarrow> max_th (temp_th (localThresholds s)) \<le> min_th (temp_th (localThresholds s)))
   \<and> (validationError (handleSave s) = Some humidityMessage
        \<longrightarrow> max_th (humidity_th (localThresholds s)) \<le> min_th (humidity_th (localThresholds s)))
   \<and> (validationError (handleSave s) \<noteq> None
        \<longrightarrow> thresholdsState (handleSave s) = thresholdsState s
            \<and> iotThresholds (handleSave s) = iotThresholds s)
   \<and> (validationError (handleSave s) = None
        \<longrightarrow> thresholdsState (handleSave s) = localThresholds s
            \<and> iotThresholds (handleSave s) = Some (localThresholds s)
            \<and> success (handleSave s))"
  using messages_differ
  by (auto simp: handleSave_def setThresholds_def Let_def temperatureMessage_def humidityMessage_def)

text \<open>
  The candidate 25..18 is refused and the default set stays active and nothing is stored;
  the candidate 16..27.5, 35..65 is committed and stored.
\<close>

theorem handleSave_validates_witness:
  "validationError (handleSave invalidCandidate) = Some temperatureMessage
   \<and> thresholdsState (handleSave invalidCandidate) = DEFAULT_THRESHOLDS
   \<and> iotThresholds (handleSave invalidCandidate) = None
   \<and> validationError (handleSave validCandidate) = None
   \<and> thresholdsState (handleSave validCandidate) = localThresholds validCandidate
   \<and> iotThresholds (handleSave validCandidate) = Some (localThresholds validCandidate)"
  using handleSave_validates [of invalidCandidate] handleSave_validates [of validCandidate]
  by (simp add: handleSave_def setThresholds_def Let_def invalidCandidate_def validCandidate_def
      temperatureMessage_def)

text \<open>
  Claim C10. The temperature range is checked first: when both ranges are invalid the
  error is the temperature message, and the humidity message is never the error while the
  temperature range is invalid.
\<close>

theorem handleSave_temperature_first:
  "(max_th (temp_th (localThresholds s)) \<le> min_th (temp_th (localThresholds s))
    \<and> max_th (humidity_th (localThresholds s)) \<le> min_th (humidity_th (localThresholds s))
    \<longrightarrow> validationError (handleSave s) = Some temperatureMessage)
   \<and> (max_th (temp_th (localThresholds s)) \<le> min_th (temp_th (localThresholds s))
    \<longrightarrow> validationError (handleSave s) \<noteq> Some humidityMessage)"
  by (simp add: handleSave_def Let_def temperatureMessage_def humidityMessage_def)

theorem handleSave_temperature_first_witness:
  "max_th (temp_th (localThresholds invalidCandidate))
     \<le> min_th (temp_th (localThresholds invalidCandidate))
   \<and> max_th (humidity_th (localThresholds invalidCandidate))
     \<le> min_th (humidity_th (localThresholds invalidCandidate))
   \<and> validationError (handleSave invalidCandidate) = Some temperatureMessage
   \<and> validationError (handleSave invalidCandidate) \<noteq> Some humidityMessage"
  using handleSave_temperature_first [of invalidCandidate]
  by (simp add: invalidCandidate_def messages_differ)

section \<open>Live history buffer\<close>

lemma slice_last9: "slice (- 9) xs = drop (length xs - 9) xs"
  by (auto simp: slice_def Let_def max_def intro: arg_cong[where f="\<lambda>k. drop k xs"])

lemma liveStep_eq: "liveStep prev i = drop (length prev - 9) prev @ [pointOf i]"
  by (cases i) (simp add: liveStep_def liveUpdate_def pointOf_def slice_last9 Let_def)

lemma foldl_liveStep:
  "foldl liveStep (drop (length ps - 10) (map pointOf ps)) qs
     = drop (length (ps @ qs) - 10) (map pointOf (ps @ qs))"
proof (induction qs arbitrary: ps)
  case Nil
  then show ?case by simp
next
  case (Cons q qs)
  have idx: "length ps - (length ps - 10 + 9) + (length ps - 10) = length ps - 9"
    by arith
  have "liveStep (drop (length ps - 10) (map pointOf ps)) q
          = drop (length (ps @ [q]) - 10) (map pointOf (ps @ [q]))"
    by (simp add: liveStep_eq idx)
  with Cons.IH [of "ps @ [q]"] show ?case by simp
qed

lemma liveDataHistory_eq:
  "liveDataHistory inputs = drop (length inputs - 10) (map pointOf inputs)"
  using foldl_liveStep [of "[]" inputs] by (simp add: liveDataHistory_def)

lemma liveDataHistory_snoc:
  "liveDataHistory (inputs @ [i]) = liveStep (liveDataHistory inputs) i"
  by (simp add: liveDataHistory_def)

text \<open>
  Claim C9. After any run of appends the buffer holds at most 10 points: the last 10
  appended, in the order of their appends. An append puts the new point at the tail, and
  drops the head when the buffer was full. After 11 appends the buffer is the second to
  the eleventh point.
\<close>

theorem live_history_bounded_fifo:
  "length (liveDataHistory inputs) \<le> 10
   \<and> liveDataHistory inputs = drop (length inputs - 10) (map pointOf inputs)
   \<and> liveDataHistory (inputs @ [i])
       = (if length (liveDataHistory inputs) < 10
          then liveDataHistory inputs @ [pointOf i]
          else tl (liveDataHistory inputs) @ [pointOf i])
   \<and> liveDataHistory [i1, i2, i3, i4, i5, i6, i7, i8, i9, i10, i11]
       = [pointOf i2, pointOf i3, pointOf i4, pointOf i5, pointOf i6, pointOf i7,
          pointOf i8, pointOf i9, pointOf i10, pointOf i11]"
proof -
  have len: "length (liveDataHistory inputs) \<le> 10"
    by (simp add: liveDataHistory_eq)
  have step: "liveDataHistory (inputs @ [i])
       = (if length (liveDataHistory inputs) < 10
          then liveDataHistory inputs @ [pointOf i]
          else tl (liveDataHistory inputs) @ [pointOf i])"
  proof (cases "length (liveDataHistory inputs) < 10")
    case True
    then show ?thesis by (simp add: liveDataHistory_snoc liveStep_eq)
  next
    case False
    with len have "length (liveDataHistory inputs) = 10" by simp
    then show ?thesis
      by (simp add: liveDataHistory_snoc liveStep_eq drop_Suc del: length_drop)
  qed
  have eleven: "liveDataHistory [i1, i2, i3, i4, i5, i6, i7, i8, i9, i10, i11]
       = [pointOf i2, pointOf i3, pointOf i4, pointOf i5, pointOf i6, pointOf i7,
          pointOf i8, pointOf i9, pointOf i10, pointOf i11]"
    by (simp add: liveDataHistory_eq)
  from len step eleven liveDataHistory_eq [of inputs] show ?thesis by blast
qed

section \<open>One-decimal rounding\<close>

lemma toFixed1_zero [simp]: "toFixed1 0 = 0"
  by (simp add: toFixed1_def)

lemma toFixed1_minus: "toFixed1 (- v) = - toFixed1 v"
  by (cases "v = 0") (auto simp: toFixed1_def)

lemma toFixed1_close: "\<bar>toFixed1 v - v\<bar> \<le> 1 / 20"
proof -
  have a: "\<bar>of_int \<lfloor>x * 10 + 1 / 2\<rfloor> / 10 - x\<bar> \<le> 1 / 20" for x :: real
  proof -
    define n where "n = \<lfloor>x * 10 + 1 / 2\<rfloor>"
    have "of_int n \<le> x * 10 + 1 / 2" and "x * 10 + 1 / 2 < of_int n + 1"
      unfolding n_def by linarith+
    then have "\<bar>of_int n / 10 - x\<bar> \<le> 1 / 20"
      by linarith
    then show ?thesis by (simp only: n_def)
  qed
  consider "10 ^ 21 \<le> \<bar>v\<bar>" | "\<bar>v\<bar> < 10 ^ 21" "v < 0" | "\<bar>v\<bar> < 10 ^ 21" "0 \<le> v"
    by linarith
  then show ?thesis
  proof cases
    case 1
    then show ?thesis by (simp add: toFixed1_def)
  next
    case 2
    then have "toFixed1 v = - (of_int \<lfloor>(- v) * 10 + 1 / 2\<rfloor> / 10)"
      by (simp add: toFixed1_def)
    with a [of "- v"] show ?thesis by linarith
  next
    case 3
    then have "toFixed1 v = of_int \<lfloor>v * 10 + 1 / 2\<rfloor> / 10"
      by (simp add: toFixed1_def)
    with a [of v] show ?thesis by linarith
  qed
qed

lemma floor_half: "\<lfloor>of_int n + (1 / 2 :: real)\<rfloor> = n"
  by linarith

lemma toFixed1_grid: "toFixed1 (of_int n / 10) = of_int n / 10"
proof -
  have pos: "toFixed1 (of_int m / 10) = of_int m / 10" if "0 \<le> m" for m
    using that by (simp add: toFixed1_def floor_half)
  show ?thesis
  proof (cases "0 \<le> n")
    case True
    then show ?thesis by (rule pos)
  next
    case False
    then have "toFixed1 (of_int (- n) / 10) = of_int (- n) / 10" by (intro pos) simp
    then show ?thesis using toFixed1_minus [of "of_int n / 10"] by simp
  qed
qed

lemma toFixed1_is_grid: "\<bar>v\<bar> < 10 ^ 21 \<Longrightarrow> \<exists>n. toFixed1 v = of_int n / 10"
proof (cases "v < 0")
  case True
  assume "\<bar>v\<bar> < 10 ^ 21"
  with True have "toFixed1 v = of_int (- \<lfloor>(- v) * 10 + 1 / 2\<rfloor>) / 10"
    by (simp add: toFixed1_def)
  then show ?thesis by blast
next
  case False
  assume "\<bar>v\<bar> < 10 ^ 21"
  with False have "toFixed1 v = of_int \<lfloor>v * 10 + 1 / 2\<rfloor> / 10"
    by (simp add: toFixed1_def)
  then show ?thesis by blast
qed

lemma toFixed1_idem: "toFixed1 (toFixed1 v) = toFixed1 v"
proof (cases "\<bar>v\<bar> < 10 ^ 21")
  case True
  from toFixed1_is_grid [OF this] obtain n where "toFixed1 v = of_int n / 10" ..
  then show ?thesis by (simp only: toFixed1_grid)
next
  case False
  then show ?thesis by (simp add: toFixed1_def)
qed

lemma toFixed1_mono_nonneg:
  assumes "0 \<le> x" "x \<le> y"
  shows "toFixed1 x \<le> toFixed1 y"
proof -
  have fl: "\<lfloor>x * 10 + 1 / 2\<rfloor> \<le> \<lfloor>y * 10 + 1 / 2\<rfloor>"
    using assms by (intro floor_mono) simp
  have up: "of_int \<lfloor>x * 10 + 1 / 2\<rfloor> / 10 \<le> y" if "x < 10 ^ 21" "10 ^ 21 \<le> y"
  proof -
    have "x * 10 + 1 / 2 < 10 ^ 22 + 1" using that by simp
    then have "\<lfloor>x * 10 + 1 / 2\<rfloor> < 10 ^ 22 + 1"
      by (simp add: floor_less_iff)
    then have "\<lfloor>x * 10 + 1 / 2\<rfloor> \<le> 10 ^ 22" by simp
    then have "(of_int \<lfloor>x * 10 + 1 / 2\<rfloor> :: real) \<le> of_int (10 ^ 22)"
      by (simp only: of_int_le_iff)
    then have "(of_int \<lfloor>x * 10 + 1 / 2\<rfloor> :: real) / 10 \<le> 10 ^ 21" by simp
    with that show ?thesis by linarith
  qed
  show ?thesis
  proof (cases "y < 10 ^ 21")
    case True
    with assms fl show ?thesis
      by (simp add: toFixed1_def divide_right_mono)
  next
    case False
    with assms up show ?thesis
      by (cases "x < 10 ^ 21") (auto simp: toFixed1_def)
  qed
qed

lemma toFixed1_nonneg: "0 \<le> v \<Longrightarrow> 0 \<le> toFixed1 v"
  using toFixed1_mono_nonneg [of 0 v] by simp

lemma toFixed1_mono: "x \<le> y \<Longrightarrow> toFixed1 x \<le> toFixed1 y"
proof -
  assume le: "x \<le> y"
  consider "0 \<le> x" | "x < 0" "0 \<le> y" | "y < 0" by linarith
  then show ?thesis
  proof cases
    case 1
    then show ?thesis using le by (rule toFixed1_mono_nonneg)
  next
    case 2
    then have "0 \<le> toFixed1 (- x)" "0 \<le> toFixed1 y"
      by (simp_all add: toFixed1_nonneg)
    then show ?thesis by (simp add: toFixed1_minus)
  next
    case 3
    with le have "toFixed1 (- y) \<le> toFixed1 (- x)"
      by (intro toFixed1_mono_nonneg) simp_all
    then show ?thesis by (simp add: toFixed1_minus)
  qed
qed

section \<open>Telemetry tick\<close>

lemma tickDevice_eq:
  "tickDevice thresholds random device (m, k) =
     (case m (dev_id device) of
        None \<Rightarrow> Inl TypeError
      | Some d \<Rightarrow> Inr (m(dev_id device \<mapsto> tickReading thresholds (random k) (random (k + 1)) d),
                      if status d then k + 2 else k))"
  by (simp add: tickDevice_def tickReading_def clamp_def Let_def mult.commute split: option.splits)

lemma status_tickReading [simp]: "status (tickReading thresholds r h d) = status d"
  by (simp add: tickReading_def)

lemma forEachDevice_other:
  "forEachDevice thresholds random devices (m, k) = Inr (m', k') \<Longrightarrow>
   x \<notin> dev_id ` set devices \<Longrightarrow> m' x = m x"
proof (induction devices arbitrary: m k)
  case Nil
  then show ?case by simp
next
  case (Cons dv dvs)
  then show ?case
    by (auto simp: tickDevice_eq split: option.splits sum.splits if_splits)
qed

lemma forEachDevice_total:
  "\<forall>dv \<in> set devices. m (dev_id dv) \<noteq> None \<Longrightarrow>
   \<exists>m' k'. forEachDevice thresholds random devices (m, k) = Inr (m', k')"
proof (induction devices arbitrary: m k)
  case Nil
  then show ?case by simp
next
  case (Cons dv dvs)
  from Cons.prems obtain d where d: "m (dev_id dv) = Some d" by auto
  define m1 where "m1 = m(dev_id dv \<mapsto> tickReading thresholds (random k) (random (k + 1)) d)"
  have "\<forall>dv' \<in> set dvs. m1 (dev_id dv') \<noteq> None"
    using Cons.prems by (auto simp: m1_def)
  from Cons.IH [OF this]
  have "\<exists>m' k'. forEachDevice thresholds random dvs (m1, if status d then k + 2 else k) = Inr (m', k')"
    by blast
  then show ?case by (simp add: tickDevice_eq d m1_def)
qed

lemma forEachDevice_present:
  "forEachDevice thresholds random devices (m, k) = Inr (m', k') \<Longrightarrow> m x \<noteq> None \<Longrightarrow> m' x \<noteq> None"
proof (induction devices arbitrary: m k)
  case Nil
  then show ?case by simp
next
  case (Cons dv dvs)
  from Cons.prems obtain d where d: "m (dev_id dv) = Some d"
    by (auto simp: tickDevice_eq split: option.splits)
  define m1 where "m1 = m(dev_id dv \<mapsto> tickReading thresholds (random k) (random (k + 1)) d)"
  from Cons.prems d
  have run: "forEachDevice thresholds random dvs (m1, if status d then k + 2 else k) = Inr (m', k')"
    by (simp add: tickDevice_eq m1_def)
  have "m1 x \<noteq> None" using Cons.prems by (simp add: m1_def)
  from Cons.IH [OF run this] show ?case .
qed

lemma forEachDevice_at:
  "distinct (map dev_id devices) \<Longrightarrow> device \<in> set devices \<Longrightarrow> m (dev_id device) = Some d \<Longrightarrow>
   forEachDevice thresholds random devices (m, k) = Inr (m', k') \<Longrightarrow>
   \<exists>j. m' (dev_id device) = Some (tickReading thresholds (random j) (random (j + 1)) d)"
proof (induction devices arbitrary: m k)
  case Nil
  then show ?case by simp
next
  case (Cons dv dvs)
  show ?case
  proof (cases "dev_id device = dev_id dv")
    case True
    define m1 where "m1 = m(dev_id dv \<mapsto> tickReading thresholds (random k) (random (k + 1)) d)"
    from Cons.prems True
    have run: "forEachDevice thresholds random dvs (m1, if status d then k + 2 else k) = Inr (m', k')"
      by (simp add: tickDevice_eq m1_def)
    from Cons.prems have "dev_id dv \<notin> dev_id ` set dvs" by auto
    from forEachDevice_other [OF run this] True show ?thesis
      by (auto simp: m1_def)
  next
    case False
    with Cons.prems have mem: "device \<in> set dvs" by auto
    from Cons.prems obtain d0 where d0: "m (dev_id dv) = Some d0"
      by (auto simp: tickDevice_eq split: option.splits)
    define m1 where "m1 = m(dev_id dv \<mapsto> tickReading thresholds (random k) (random (k + 1)) d0)"
    from Cons.prems d0
    have run: "forEachDevice thresholds random dvs (m1, if status d0 then k + 2 else k) = Inr (m', k')"
      by (simp add: tickDevice_eq m1_def)
    have at: "m1 (dev_id device) = Some d" using False Cons.prems by (simp add: m1_def)
    from Cons.prems have dist: "distinct (map dev_id dvs)" by simp
    from Cons.IH [OF dist mem at run] show ?thesis .
  qed
qed

lemma init_half:
  "initialDeviceData (\<lambda>_. 1 / 2) INITIAL_DEVICES =
     ([''dev-001'' \<mapsto> \<lparr>temp = 22.5, humidity = 50, status = True\<rparr>,
       ''dev-002'' \<mapsto> \<lparr>temp = 22.5, humidity = 50, status = True\<rparr>,
       ''dev-003'' \<mapsto> \<lparr>temp = 22.5, humidity = 50, status = False\<rparr>], 6)"
  by (simp add: initialDeviceData_def INITIAL_DEVICES_def)

text \<open>
  The hypotheses of the two tick theorems hold in every state the hook reaches: the initial
  mapping has an entry for every device (no id being \<open>__proto__\<close>), a tick keeps every
  entry (lemma \<open>forEachDevice_present\<close>), and the ids of \<open>INITIAL_DEVICES\<close> are distinct.
\<close>

lemma initialForEach_present:
  "(\<forall>x. m x \<noteq> None \<longrightarrow> fst (initialForEach random devices (m, k)) x \<noteq> None)
   \<and> (\<forall>dv \<in> set devices. dev_id dv \<noteq> ''__proto__''
         \<longrightarrow> fst (initialForEach random devices (m, k)) (dev_id dv) \<noteq> None)"
proof (induction devices arbitrary: m k)
  case Nil
  then show ?case by simp
next
  case (Cons dv dvs)
  define m1 where "m1 = (if dev_id dv = ''__proto__'' then m
        else m(dev_id dv \<mapsto>
          \<lparr>temp = 22.5 + (random k * 5 - 2.5),
           humidity = 50 + (random (k + 1) * 10 - 5),
           status = dev_status dv\<rparr>))"
  have step: "initialForEach random (dv # dvs) (m, k) = initialForEach random dvs (m1, k + 2)"
    by (simp add: m1_def)
  have keep: "m1 x \<noteq> None" if "m x \<noteq> None" for x
    using that by (simp add: m1_def)
  have new: "m1 (dev_id dv) \<noteq> None" if "dev_id dv \<noteq> ''__proto__''"
    using that by (simp add: m1_def)
  from Cons.IH [of m1 "k + 2"] keep new show ?case
    unfolding step by auto
qed

lemma initialDeviceData_present:
  "\<forall>dv \<in> set initialDevices. dev_id dv \<noteq> ''__proto__''
     \<longrightarrow> fst (initialDeviceData random initialDevices) (dev_id dv) \<noteq> None"
  using initialForEach_present [of Map.empty random initialDevices 0]
  by (simp add: initialDeviceData_def)

lemma clamp_between: "lo \<le> hi \<Longrightarrow> lo \<le> clamp x lo hi \<and> clamp x lo hi \<le> hi"
  by (simp add: clamp_def)

lemma toFixed1_between:
  "lo \<le> x \<Longrightarrow> x \<le> hi \<Longrightarrow> toFixed1 lo = lo \<Longrightarrow> toFixed1 hi = hi \<Longrightarrow>
   lo \<le> toFixed1 x \<and> toFixed1 x \<le> hi"
  using toFixed1_mono [of lo x] toFixed1_mono [of x hi] by simp

lemma tick_result:
  assumes dist: "distinct (map dev_id initialDevices)"
    and pres: "\<forall>dv \<in> set initialDevices. prevData (dev_id dv) \<noteq> None"
    and mem: "device \<in> set initialDevices"
    and at: "prevData (dev_id device) = Some d"
  shows "\<exists>newData k' j.
           tick thresholds random initialDevices prevData k = Inr (newData, k')
         \<and> newData (dev_id device) = Some (tickReading thresholds (random j) (random (j + 1)) d)
         \<and> (\<forall>dv \<in> set initialDevices. newData (dev_id dv) \<noteq> None)"
proof -
  from forEachDevice_total [OF pres] obtain newData k'
    where run: "forEachDevice thresholds random initialDevices (prevData, k) = Inr (newData, k')"
    by blast
  from forEachDevice_at [OF dist mem at run] obtain j
    where j: "newData (dev_id device) = Some (tickReading thresholds (random j) (random (j + 1)) d)"
    by blast
  have "\<forall>dv \<in> set initialDevices. newData (dev_id dv) \<noteq> None"
    using forEachDevice_present [OF run] pres by blast
  with run j show ?thesis by (auto simp: tick_def)
qed

text \<open>
  Claim C2, as the code has it. Let every draw lie in \<open>[0, 1)\<close>, the devices have distinct
  ids and each an entry. For a device whose entry \<open>d\<close> is powered, one tick returns a
  mapping whose entry \<open>d'\<close> for the device is still powered and has
  \<^item> \<open>temp d' = toFixed1 (clamp (temp d + u) (min - 5) (max + 5))\<close> with
    \<open>u = random j * 1 - 0.5\<close>, and
    \<open>humidity d' = toFixed1 (clamp (humidity d + v) (min - 10) (max + 10))\<close> with
    \<open>v = random (j + 1) * 2 - 1\<close>, for two consecutive draws of the tick;
  \<^item> the changes before the clamp bounded, \<open>\<bar>u\<bar> \<le> 0.5\<close> and \<open>\<bar>v\<bar> \<le> 1\<close>;
  \<^item> the clamped value inside \<open>[min - margin, max + margin]\<close> when that interval is not
    empty, and the returned, rounded value within 0.05 of the clamped one; the returned
    value is inside the interval itself when both of its ends have at most one decimal
    (they are fixed by the rounding);
  \<^item> the returned values already rounded, and the next tick starts from them: its entry
    for the device is \<open>tickReading\<close> of \<open>d'\<close>.
\<close>

theorem tick_powered_random_walk:
  assumes rnd: "\<forall>j. 0 \<le> random j \<and> random j < 1"
    and dist: "distinct (map dev_id initialDevices)"
    and pres: "\<forall>dv \<in> set initialDevices. prevData (dev_id dv) \<noteq> None"
    and mem: "device \<in> set initialDevices"
    and at: "prevData (dev_id device) = Some d"
    and on: "status d"
  shows "\<exists>newData k' j d'.
      tick thresholds random initialDevices prevData k = Inr (newData, k')
    \<and> newData (dev_id device) = Some d' \<and> status d'
    \<and> (let u = random j * 1 - 0.5;
            v = random (j + 1) * 2 - 1;
            tlo = min_th (temp_th thresholds) - 5;
            thi = max_th (temp_th thresholds) + 5;
            hlo = min_th (humidity_th thresholds) - 10;
            hhi = max_th (humidity_th thresholds) + 10;
            ct = clamp (temp d + u) tlo thi;
            ch = clamp (humidity d + v) hlo hhi
        in \<bar>u\<bar> \<le> 0.5 \<and> \<bar>v\<bar> \<le> 1
         \<and> temp d' = toFixed1 ct \<and> humidity d' = toFixed1 ch
         \<and> (tlo \<le> thi \<longrightarrow> tlo \<le> ct \<and> ct \<le> thi)
         \<and> (hlo \<le> hhi \<longrightarrow> hlo \<le> ch \<and> ch \<le> hhi)
         \<and> \<bar>temp d' - ct\<bar> \<le> 1 / 20 \<and> \<bar>humidity d' - ch\<bar> \<le> 1 / 20
         \<and> (tlo \<le> thi \<and> toFixed1 tlo = tlo \<and> toFixed1 thi = thi
              \<longrightarrow> tlo \<le> temp d' \<and> temp d' \<le> thi)
         \<and> (hlo \<le> hhi \<and> toFixed1 hlo = hlo \<and> toFixed1 hhi = hhi
              \<longrightarrow> hlo \<le> humidity d' \<and> humidity d' \<le> hhi)
         \<and> toFixed1 (temp d') = temp d' \<and> toFixed1 (humidity d') = humidity d')
    \<and> (\<exists>newData2 k2 j2.
          tick thresholds2 random initialDevices newData k' = Inr (newData2, k2)
        \<and> newData2 (dev_id device)
            = Some (tickReading thresholds2 (random j2) (random (j2 + 1)) d'))"
proof -
  from tick_result [OF dist pres mem at] obtain newData k' j
    where run: "tick thresholds random initialDevices prevData k = Inr (newData, k')"
      and new: "newData (dev_id device)
                  = Some (tickReading thresholds (random j) (random (j + 1)) d)"
      and pres2: "\<forall>dv \<in> set initialDevices. newData (dev_id dv) \<noteq> None"
    by blast
  define d' where "d' = tickReading thresholds (random j) (random (j + 1)) d"
  define u where "u = random j * 1 - 0.5"
  define v where "v = random (j + 1) * 2 - 1"
  define tlo where "tlo = min_th (temp_th thresholds) - 5"
  define thi where "thi = max_th (temp_th thresholds) + 5"
  define hlo where "hlo = min_th (humidity_th thresholds) - 10"
  define hhi where "hhi = max_th (humidity_th thresholds) + 10"
  define ct where "ct = clamp (temp d + u) tlo thi"
  define ch where "ch = clamp (humidity d + v) hlo hhi"
  have st: "status d'" using on by (simp add: d'_def)
  have u: "\<bar>u\<bar> \<le> 0.5" using rnd [rule_format, of j] unfolding u_def by linarith
  have v: "\<bar>v\<bar> \<le> 1" using rnd [rule_format, of "j + 1"] unfolding v_def by linarith
  have t: "temp d' = toFixed1 ct" and h: "humidity d' = toFixed1 ch"
    using on
    by (simp_all add: d'_def tickReading_def ct_def ch_def u_def v_def tlo_def thi_def
        hlo_def hhi_def mult.commute)
  have ctr: "tlo \<le> thi \<longrightarrow> tlo \<le> ct \<and> ct \<le> thi"
    using clamp_between [of tlo thi] by (simp add: ct_def)
  have chr: "hlo \<le> hhi \<longrightarrow> hlo \<le> ch \<and> ch \<le> hhi"
    using clamp_between [of hlo hhi] by (simp add: ch_def)
  have close: "\<bar>temp d' - ct\<bar> \<le> 1 / 20" "\<bar>humidity d' - ch\<bar> \<le> 1 / 20"
    by (simp_all only: t h toFixed1_close)
  have tgrid: "tlo \<le> thi \<and> toFixed1 tlo = tlo \<and> toFixed1 thi = thi
                 \<longrightarrow> tlo \<le> temp d' \<and> temp d' \<le> thi"
    using ctr toFixed1_between [of tlo ct thi] by (auto simp: t)
  have hgrid: "hlo \<le> hhi \<and> toFixed1 hlo = hlo \<and> toFixed1 hhi = hhi
                 \<longrightarrow> hlo \<le> humidity d' \<and> humidity d' \<le> hhi"
    using chr toFixed1_between [of hlo ch hhi] by (auto simp: h)
  have fixed: "toFixed1 (temp d') = temp d'" "toFixed1 (humidity d') = humidity d'"
    by (simp_all only: t h toFixed1_idem)
  from tick_result [OF dist pres2 mem new [folded d'_def]] obtain newData2 k2 j2
    where next_tick: "tick thresholds2 random initialDevices newData k' = Inr (newData2, k2)"
      "newData2 (dev_id device) = Some (tickReading thresholds2 (random j2) (random (j2 + 1)) d')"
    by blast
  have body: "(let u = random j * 1 - 0.5;
            v = random (j + 1) * 2 - 1;
            tlo = min_th (temp_th thresholds) - 5;
            thi = max_th (temp_th thresholds) + 5;
            hlo = min_th (humidity_th thresholds) - 10;
            hhi = max_th (humidity_th thresholds) + 10;
            ct = clamp (temp d + u) tlo thi;
            ch = clamp (humidity d + v) hlo hhi
        in \<bar>u\<bar> \<le> 0.5 \<and> \<bar>v\<bar> \<le> 1
         \<and> temp d' = toFixed1 ct \<and> humidity d' = toFixed1 ch
         \<and> (tlo \<le> thi \<longrightarrow> tlo \<le> ct \<and> ct \<le> thi)
         \<and> (hlo \<le> hhi \<longrightarrow> hlo \<le> ch \<and> ch \<le> hhi)
         \<and> \<bar>temp d' - ct\<bar> \<le> 1 / 20 \<and> \<bar>humidity d' - ch\<bar> \<le> 1 / 20
         \<and> (tlo \<le> thi \<and> toFixed1 tlo = tlo \<and> toFixed1 thi = thi
              \<longrightarrow> tlo \<le> temp d' \<and> temp d' \<le> thi)
         \<and> (hlo \<le> hhi \<and> toFixed1 hlo = hlo \<and> toFixed1 hhi = hhi
              \<longrightarrow> hlo \<le> humidity d' \<and> humidity d' \<le> hhi)
         \<and> toFixed1 (temp d') = temp d' \<and> toFixed1 (humidity d') = humidity d')"
    unfolding Let_def
    using u v t h ctr chr close tgrid hgrid fixed
    unfolding u_def v_def ct_def ch_def tlo_def thi_def hlo_def hhi_def
    by blast
  from run new [folded d'_def] st body next_tick show ?thesis by blast
qed

lemma INITIAL_DEVICES_distinct: "distinct (map dev_id INITIAL_DEVICES)"
  by (simp add: INITIAL_DEVICES_def)

lemma sampleData_present: "\<forall>dv \<in> set INITIAL_DEVICES. sampleData (dev_id dv) \<noteq> None"
  by (simp add: INITIAL_DEVICES_def sampleData_def)

text \<open>
  The sample readings under the default thresholds, every draw \<open>1/4\<close>: the first device
  is powered, and its new values lie in 13..30 and 30..70.
\<close>

theorem tick_powered_random_walk_witness:
  "\<exists>newData k' d'.
      tick DEFAULT_THRESHOLDS (\<lambda>_. 1 / 4) INITIAL_DEVICES sampleData 0 = Inr (newData, k')
    \<and> newData ''dev-001'' = Some d' \<and> status d'
    \<and> 13 \<le> temp d' \<and> temp d' \<le> 30 \<and> 30 \<le> humidity d' \<and> humidity d' \<le> 70
    \<and> toFixed1 (temp d') = temp d' \<and> toFixed1 (humidity d') = humidity d'"
proof -
  have rnd: "\<forall>j. 0 \<le> (\<lambda>_. 1 / 4 :: real) j \<and> (\<lambda>_. 1 / 4 :: real) j < 1"
    by simp
  have mem: "firstDevice \<in> set INITIAL_DEVICES"
    by (simp add: INITIAL_DEVICES_def firstDevice_def)
  have at: "sampleData (dev_id firstDevice) = Some \<lparr>temp = 18, humidity = 60, status = True\<rparr>"
    by (simp add: sampleData_def firstDevice_def)
  have on: "status \<lparr>temp = 18, humidity = 60, status = True\<rparr>"
    by simp
  have grid: "toFixed1 13 = 13" "toFixed1 30 = 30" "toFixed1 70 = 70"
    by (simp_all add: toFixed1_def)
  from tick_powered_random_walk
         [OF rnd INITIAL_DEVICES_distinct sampleData_present mem at on,
          of DEFAULT_THRESHOLDS 0 DEFAULT_THRESHOLDS]
  show ?thesis
    by (simp add: Let_def DEFAULT_THRESHOLDS_def firstDevice_def grid) blast
qed

text \<open>
  Claim C2 as stated fails where it places the returned value inside
  \<open>[min - margin, max + margin]\<close>. With the valid thresholds 27.94..30 for the temperature,
  the initial readings of draws \<open>1/2\<close> (22.5 and 50) and a tick of draws \<open>1/2\<close>, the
  walk of the first device is clamped to the lower end 22.94 and then rounded to 22.9,
  below that end.
\<close>

theorem tick_rounds_out_of_range:
  "\<exists>newData k' d'.
     tick offGridThresholds (\<lambda>_. 1 / 2) INITIAL_DEVICES
        (fst (initialDeviceData (\<lambda>_. 1 / 2) INITIAL_DEVICES)) 6 = Inr (newData, k')
     \<and> newData ''dev-001'' = Some d' \<and> status d' \<and> temp d' = 22.9
     \<and> temp d' < min_th (temp_th offGridThresholds) - 5"
  unfolding init_half fst_conv
  by (simp add: tick_def tickDevice_eq tickReading_def clamp_def INITIAL_DEVICES_def
        offGridThresholds_def toFixed1_def)

text \<open>
  Claim C3, as the code has it. Let the devices have distinct ids and each an entry. For a
  device whose entry \<open>d\<close> is not powered, one tick returns a mapping whose entry for the
  device is \<open>d\<close> with both values rounded to one decimal: each within 0.05 of the old
  value (not reset to zero), and the entry is \<open>d\<close> itself when its values have one
  decimal already. A second tick, on the mapping the first returned, leaves the entry as
  the first tick left it.
\<close>

theorem tick_unpowered_rounds_only:
  assumes dist: "distinct (map dev_id initialDevices)"
    and pres: "\<forall>dv \<in> set initialDevices. prevData (dev_id dv) \<noteq> None"
    and mem: "device \<in> set initialDevices"
    and at: "prevData (dev_id device) = Some d"
    and off: "\<not> status d"
  shows "\<exists>newData k'.
      tick thresholds random initialDevices prevData k = Inr (newData, k')
    \<and> newData (dev_id device)
        = Some (d\<lparr>temp := toFixed1 (temp d), humidity := toFixed1 (humidity d)\<rparr>)
    \<and> \<bar>toFixed1 (temp d) - temp d\<bar> \<le> 1 / 20
    \<and> \<bar>toFixed1 (humidity d) - humidity d\<bar> \<le> 1 / 20
    \<and> (toFixed1 (temp d) = temp d \<and> toFixed1 (humidity d) = humidity d
         \<longrightarrow> newData (dev_id device) = Some d)
    \<and> (\<exists>newData2 k2.
          tick thresholds2 random initialDevices newData k' = Inr (newData2, k2)
        \<and> newData2 (dev_id device) = newData (dev_id device))"
proof -
  from tick_result [OF dist pres mem at] obtain newData k' j
    where run: "tick thresholds random initialDevices prevData k = Inr (newData, k')"
      and new: "newData (dev_id device)
                  = Some (tickReading thresholds (random j) (random (j + 1)) d)"
      and pres2: "\<forall>dv \<in> set initialDevices. newData (dev_id dv) \<noteq> None"
    by blast
  define d' where "d' = d\<lparr>temp := toFixed1 (temp d), humidity := toFixed1 (humidity d)\<rparr>"
  have new': "newData (dev_id device) = Some d'"
    using new off by (simp add: tickReading_def d'_def)
  have same: "toFixed1 (temp d) = temp d \<and> toFixed1 (humidity d) = humidity d
                \<longrightarrow> newData (dev_id device) = Some d"
    using new' by (simp add: d'_def)
  from tick_result [OF dist pres2 mem new'] obtain newData2 k2 j2
    where run2: "tick thresholds2 random initialDevices newData k' = Inr (newData2, k2)"
      and new2: "newData2 (dev_id device)
                  = Some (tickReading thresholds2 (random j2) (random (j2 + 1)) d')"
    by blast
  have "tickReading thresholds2 (random j2) (random (j2 + 1)) d' = d'"
    using off by (simp add: tickReading_def d'_def toFixed1_idem)
  with new2 new' have again: "newData2 (dev_id device) = newData (dev_id device)"
    by simp
  from run new' [unfolded d'_def] same run2 again toFixed1_close [of "temp d"]
       toFixed1_close [of "humidity d"]
  show ?thesis by blast
qed

lemma init_508:
  "initialDeviceData (\<lambda>_. 0.508) INITIAL_DEVICES =
     ([''dev-001'' \<mapsto> \<lparr>temp = 22.54, humidity = 50.08, status = True\<rparr>,
       ''dev-002'' \<mapsto> \<lparr>temp = 22.54, humidity = 50.08, status = True\<rparr>,
       ''dev-003'' \<mapsto> \<lparr>temp = 22.54, humidity = 50.08, status = False\<rparr>], 6)"
  by (simp add: initialDeviceData_def INITIAL_DEVICES_def)

text \<open>
  Claim C3 as stated fails on the first tick. The initial readings are not rounded: with
  every draw 0.508 the third device, which starts unpowered, has 22.54 and 50.08, and the
  tick leaves it 22.5 and 50.1.
\<close>

theorem tick_changes_unpowered:
  "\<exists>d newData k' d'.
     fst (initialDeviceData (\<lambda>_. 0.508) INITIAL_DEVICES) ''dev-003'' = Some d
     \<and> \<not> status d \<and> temp d = 22.54 \<and> humidity d = 50.08
     \<and> tick DEFAULT_THRESHOLDS (\<lambda>_. 0.508) INITIAL_DEVICES
          (fst (initialDeviceData (\<lambda>_. 0.508) INITIAL_DEVICES)) 6 = Inr (newData, k')
     \<and> newData ''dev-003'' = Some d'
     \<and> temp d' = 22.5 \<and> humidity d' = 50.1
     \<and> temp d' \<noteq> temp d \<and> humidity d' \<noteq> humidity d"
  unfolding init_508 fst_conv
  by (simp add: tick_def tickDevice_eq tickReading_def clamp_def INITIAL_DEVICES_def
        DEFAULT_THRESHOLDS_def toFixed1_def)

text \<open>
  The sample readings: the third device is unpowered with 22.5 and 50, and two ticks
  leave it so.
\<close>

theorem tick_unpowered_rounds_only_witness:
  "\<exists>newData k' newData2 k2.
      tick DEFAULT_THRESHOLDS (\<lambda>_. 1 / 4) INITIAL_DEVICES sampleData 0 = Inr (newData, k')
    \<and> newData ''dev-003'' = Some \<lparr>temp = 22.5, humidity = 50, status = False\<rparr>
    \<and> tick DEFAULT_THRESHOLDS (\<lambda>_. 1 / 4) INITIAL_DEVICES newData k' = Inr (newData2, k2)
    \<and> newData2 ''dev-003'' = newData ''dev-003''"
proof -
  have mem: "thirdDevice \<in> set INITIAL_DEVICES"
    by (simp add: INITIAL_DEVICES_def thirdDevice_def)
  have at: "sampleData (dev_id thirdDevice) = Some \<lparr>temp = 22.5, humidity = 50, status = False\<rparr>"
    by (simp add: sampleData_def thirdDevice_def)
  have off: "\<not> status \<lparr>temp = 22.5, humidity = 50, status = False\<rparr>"
    by simp
  have grid: "toFixed1 (45 / 2) = 45 / 2" "toFixed1 50 = 50"
    by (simp_all add: toFixed1_def)
  from tick_unpowered_rounds_only
         [OF INITIAL_DEVICES_distinct sampleData_present mem at off,
          of DEFAULT_THRESHOLDS "\<lambda>_. 1 / 4" 0 DEFAULT_THRESHOLDS]
  show ?thesis
    by (simp add: thirdDevice_def grid)
qed

section \<open>Historical series\<close>

lemma historyLoop_eq:
  "i \<le> count \<Longrightarrow>
   historyLoop f random t step count i (k + 2 * i) data
     = data @ map (historyPointAt f random t step count k) [i..<count]"
proof (induction "count - i" arbitrary: i data)
  case 0
  then show ?case by (simp add: historyLoop.simps)
next
  case (Suc n)
  then have lt: "i < count" and n: "n = count - (i + 1)" and le: "i + 1 \<le> count"
    by simp_all
  have "historyLoop f random t step count i (k + 2 * i) data
          = historyLoop f random t step count (i + 1) (k + 2 * (i + 1))
              (data @ [historyPointAt f random t step count k i])"
    using lt by (subst historyLoop.simps) (simp add: historyPointAt_def Let_def)
  also have "\<dots> = (data @ [historyPointAt f random t step count k i])
                    @ map (historyPointAt f random t step count k) [i + 1..<count]"
    by (rule Suc.hyps(1) [OF n le])
  also have "\<dots> = data @ map (historyPointAt f random t step count k) [i..<count]"
    using lt by (simp add: upt_conv_Cons)
  finally show ?case .
qed

lemma createHistoricalData_eq:
  "createHistoricalData f random k now range'
     = map (historyPointAt f random now (historyStep range') (historyCount range') k)
         [0..<historyCount range']"
  using historyLoop_eq [of 0 "historyCount range'" f random now "historyStep range'" k "[]"]
  by (simp add: createHistoricalData_def)

lemma historyStep_pos: "0 < historyStep range'"
  by (simp add: historyStep_def)

lemma historyCount_pos: "0 < historyCount range'"
  by (simp add: historyCount_def)

text \<open>
  Claim C4. For every range, clock value and run of draws the series has the length of
  the range table, its \<open>i\<close>-th timestamp is \<open>now - (count - i) * step\<close>, consecutive
  timestamps are one step apart, the timestamps increase strictly, and the last one is
  one step before \<open>now\<close>. The table: 24 points for \<open>24h\<close> and 168 for \<open>7d\<close>, 3,600,000 ms
  apart, 90 points for \<open>3m\<close>, 86,400,000 ms apart; every other range gives what \<open>24h\<close>
  gives.
\<close>

theorem createHistoricalData_table:
  "length (createHistoricalData f random k now range') = historyCount range'
   \<and> historyCount ''24h'' = 24 \<and> historyStep ''24h'' = 3600000
   \<and> historyCount ''7d'' = 168 \<and> historyStep ''7d'' = 3600000
   \<and> historyCount ''3m'' = 90 \<and> historyStep ''3m'' = 86400000
   \<and> (range' \<noteq> ''7d'' \<and> range' \<noteq> ''3m''
        \<longrightarrow> createHistoricalData f random k now range'
            = createHistoricalData f random k now ''24h'')
   \<and> (\<forall>i < historyCount range'.
         timestamp (createHistoricalData f random k now range' ! i)
           = now - (int (historyCount range') - int i) * historyStep range')
   \<and> (\<forall>i. i + 1 < historyCount range' \<longrightarrow>
         timestamp (createHistoricalData f random k now range' ! (i + 1))
           - timestamp (createHistoricalData f random k now range' ! i) = historyStep range')
   \<and> sorted_wrt (<) (map timestamp (createHistoricalData f random k now range'))
   \<and> timestamp (last (createHistoricalData f random k now range')) = now - historyStep range'
   \<and> timestamp (last (createHistoricalData f random k now range')) < now"
proof -
  let ?data = "createHistoricalData f random k now range'"
  have len: "length ?data = historyCount range'"
    by (simp add: createHistoricalData_eq)
  have tab: "historyCount ''24h'' = 24 \<and> historyStep ''24h'' = 3600000
      \<and> historyCount ''7d'' = 168 \<and> historyStep ''7d'' = 3600000
      \<and> historyCount ''3m'' = 90 \<and> historyStep ''3m'' = 86400000"
    by (simp add: historyCount_def historyStep_def)
  have dflt: "range' \<noteq> ''7d'' \<and> range' \<noteq> ''3m'' \<longrightarrow> ?data = createHistoricalData f random k now ''24h''"
    by (simp add: createHistoricalData_def historyCount_def historyStep_def)
  have ts: "timestamp (?data ! i) = now - (int (historyCount range') - int i) * historyStep range'"
    if "i < historyCount range'" for i
    using that by (simp add: createHistoricalData_eq historyPointAt_def)
  have diff: "timestamp (?data ! (i + 1)) - timestamp (?data ! i) = historyStep range'"
    if "i + 1 < historyCount range'" for i
    using that ts [of i] ts [of "i + 1"] by (simp add: algebra_simps)
  have inc: "sorted_wrt (<) (map timestamp ?data)"
  proof -
    have "timestamp (?data ! i) < timestamp (?data ! j)" if "i < j" "j < historyCount range'" for i j
    proof -
      have "(int (historyCount range') - int j) * historyStep range'
              < (int (historyCount range') - int i) * historyStep range'"
        using that historyStep_pos [of range'] by (intro mult_strict_right_mono) simp_all
      with that show ?thesis by (simp add: ts)
    qed
    then show ?thesis by (simp add: sorted_wrt_iff_nth_less len)
  qed
  have lst: "timestamp (last ?data) = now - historyStep range'"
  proof -
    have ne: "?data \<noteq> []" using len historyCount_pos [of range'] by auto
    have "last ?data = ?data ! (historyCount range' - 1)"
      using ne len by (simp add: last_conv_nth)
    then show ?thesis
      using ts [of "historyCount range' - 1"] historyCount_pos [of range']
      by simp
  qed
  have before: "timestamp (last ?data) < now"
    using lst historyStep_pos [of range'] by simp
  from len tab dflt ts diff inc lst before show ?thesis by blast
qed

text \<open>
  A week before the clock value 1,700,000,000,000: 168 points, the first at
  1,699,395,200,000, the second an hour later; the range \<open>1y\<close> gives the series of \<open>24h\<close>.
\<close>

theorem createHistoricalData_table_witness:
  "length (createHistoricalData (\<lambda>t. []) (\<lambda>j. 0) 0 1700000000000 ''7d'') = 168
   \<and> timestamp (createHistoricalData (\<lambda>t. []) (\<lambda>j. 0) 0 1700000000000 ''7d'' ! 0)
       = 1699395200000
   \<and> timestamp (createHistoricalData (\<lambda>t. []) (\<lambda>j. 0) 0 1700000000000 ''7d'' ! 1)
       - timestamp (createHistoricalData (\<lambda>t. []) (\<lambda>j. 0) 0 1700000000000 ''7d'' ! 0)
       = 3600000
   \<and> createHistoricalData (\<lambda>t. []) (\<lambda>j. 0) 0 1700000000000 ''1y''
       = createHistoricalData (\<lambda>t. []) (\<lambda>j. 0) 0 1700000000000 ''24h''"
proof -
  note week = createHistoricalData_table [of "\<lambda>t. []" "\<lambda>j. 0" 0 1700000000000 "''7d''"]
  note year = createHistoricalData_table [of "\<lambda>t. []" "\<lambda>j. 0" 0 1700000000000 "''1y''"]
  from week have count: "historyCount ''7d'' = 168" and step: "historyStep ''7d'' = 3600000"
    by blast+
  from week count have len: "length (createHistoricalData (\<lambda>t. []) (\<lambda>j. 0) 0 1700000000000 ''7d'') = 168"
    by simp
  from week
  have "\<forall>i < historyCount ''7d''.
          timestamp (createHistoricalData (\<lambda>t. []) (\<lambda>j. 0) 0 1700000000000 ''7d'' ! i)
            = 1700000000000 - (int (historyCount ''7d'') - int i) * historyStep ''7d''"
    by blast
  from this [rule_format, of 0]
  have first: "timestamp (createHistoricalData (\<lambda>t. []) (\<lambda>j. 0) 0 1700000000000 ''7d'' ! 0)
                 = 1699395200000"
    by (simp add: count step)
  from week
  have "\<forall>i. i + 1 < historyCount ''7d'' \<longrightarrow>
          timestamp (createHistoricalData (\<lambda>t. []) (\<lambda>j. 0) 0 1700000000000 ''7d'' ! (i + 1))
            - timestamp (createHistoricalData (\<lambda>t. []) (\<lambda>j. 0) 0 1700000000000 ''7d'' ! i)
            = historyStep ''7d''"
    by blast
  from this [rule_format, of 0]
  have gap: "timestamp (createHistoricalData (\<lambda>t. []) (\<lambda>j. 0) 0 1700000000000 ''7d'' ! 1)
       - timestamp (createHistoricalData (\<lambda>t. []) (\<lambda>j. 0) 0 1700000000000 ''7d'' ! 0)
       = 3600000"
    by (simp add: count step)
  from year
  have other: "createHistoricalData (\<lambda>t. []) (\<lambda>j. 0) 0 1700000000000 ''1y''
       = createHistoricalData (\<lambda>t. []) (\<lambda>j. 0) 0 1700000000000 ''24h''"
    by simp
  from len first gap other show ?thesis by blast
qed

section \<open>CSV export\<close>

text \<open>
  The host functions at known values: a leap day, the millisecond before the epoch, the
  last valid date, and numbers in plain and in exponent notation.
\<close>

lemmas digits_eval = yearString_def sixDigits_def fourDigits_def threeDigits_def twoDigits_def
  digitChar_def

lemmas number_eval = Number_toString_def Let_def natDigits.simps fracDigits.simps digitChar_def
  stripZeros_def scientific_def

lemma iso_leap_day: "Date_toISOString 1709251199999 = Inr ''2024-02-29T23:59:59.999Z''"
proof -
  have "civilFromDays 19782 = (2024, 2, 29)"
    unfolding civilFromDays_def Let_def by simp
  then show ?thesis
    by (simp add: Date_toISOString_def isoString_def digits_eval)
qed

lemma iso_before_epoch: "Date_toISOString (- 1) = Inr ''1969-12-31T23:59:59.999Z''"
proof -
  have "civilFromDays (- 1) = (1969, 12, 31)"
    unfolding civilFromDays_def Let_def by simp
  then show ?thesis
    by (simp add: Date_toISOString_def isoString_def digits_eval)
qed

lemma iso_last_date: "Date_toISOString 8640000000000000 = Inr ''+275760-09-13T00:00:00.000Z''"
proof -
  have "civilFromDays 100000000 = (275760, 9, 13)"
    unfolding civilFromDays_def Let_def by simp
  then show ?thesis
    by (simp add: Date_toISOString_def isoString_def digits_eval)
qed

lemma number_texts:
  "Number_toString 22.5 = ''22.5''"
  "Number_toString (- 3.75) = ''-3.75''"
  "Number_toString 0.1 = ''0.1''"
  "Number_toString (10 ^ 21) = ''1e+21''"
  "Number_toString (1 / 10 ^ 7) = ''1e-7''"
  by (simp_all add: number_eval)

lemma mapRows_valid:
  "\<forall>d \<in> set data. \<bar>timestamp d\<bar> \<le> 8640000000000000 \<Longrightarrow>
   mapRows data = Inr (map (\<lambda>d. (isoString (timestamp d), temp d, humidity d)) data)"
  by (induction data) (simp_all add: Date_toISOString_def)

lemma mapRows_invalid:
  "\<exists>d \<in> set data. 8640000000000000 < \<bar>timestamp d\<bar> \<Longrightarrow> mapRows data = Inl RangeError"
proof (induction data)
  case Nil
  then show ?case by simp
next
  case (Cons d ds)
  then show ?case
    by (cases "8640000000000000 < \<bar>timestamp d\<bar>")
       (auto simp: Date_toISOString_def split: sum.splits)
qed

lemma foldl_rows:
  "foldl (\<lambda>csvContent row. csvContent @ rowJoin numberToString row @ [CHR 0x0A]) acc
      (map (\<lambda>d. (isoString (timestamp d), temp d, humidity d)) data)
     = acc @ concat (map (csvLine numberToString) data)"
  by (induction data arbitrary: acc) (simp_all add: rowJoin_def csvLine_def)

lemma iso_epoch: "isoString 0 = ''1970-01-01T00:00:00.000Z''"
proof -
  have "civilFromDays 0 = (1970, 1, 1)"
    unfolding civilFromDays_def Let_def by simp
  then show ?thesis
    by (simp add: isoString_def yearString_def fourDigits_def threeDigits_def twoDigits_def
        digitChar_def)
qed

lemma twenty_fifty: "Number_toString 20 = ''20''" "Number_toString 50 = ''50''"
  by (simp_all add: Number_toString_def Let_def natDigits.simps fracDigits.simps digitChar_def)

lemma convertToCsv_rows:
  "data \<noteq> [] \<Longrightarrow> \<forall>d \<in> set data. \<bar>timestamp d\<bar> \<le> 8640000000000000 \<Longrightarrow>
   convertToCsv numberToString data
     = Inr (''Timestamp,Temperature,Humidity'' @ [CHR 0x0A]
            @ concat (map (csvLine numberToString) data))"
  by (simp add: convertToCsv_def mapRows_valid foldl_rows)

lemma timestamp_epochRow: "timestamp epochRow = 0"
  by (simp add: epochRow_def)

lemma csvLine_epochRow:
  "csvLine Number_toString epochRow = ''1970-01-01T00:00:00.000Z,20,50'' @ [CHR 0x0A]"
  by (simp add: csvLine_def epochRow_def iso_epoch twenty_fifty)

text \<open>
  Claim C6, as the code has it. The export of the empty sequence is the empty text. The
  export of a non-empty sequence whose timestamps are valid dates (at most 8.64e15 ms in
  magnitude) is the header \<open>Timestamp,Temperature,Humidity\<close> and a newline, then one line
  per point: the ISO-8601 UTC text of the timestamp, and the two numbers as the host
  prints them, not rounded before. A timestamp beyond that range ends the export with a
  RangeError. The sequence of the one point 0, 20, 50 gives
  \<open>Timestamp,Temperature,Humidity\n1970-01-01T00:00:00.000Z,20,50\n\<close>.
\<close>

theorem convertToCsv_layout:
  "convertToCsv numberToString [] = Inr []
   \<and> (data \<noteq> [] \<and> (\<forall>d \<in> set data. \<bar>timestamp d\<bar> \<le> 8640000000000000)
        \<longrightarrow> convertToCsv numberToString data
            = Inr (''Timestamp,Temperature,Humidity'' @ [CHR 0x0A]
                   @ concat (map (csvLine numberToString) data)))
   \<and> ((\<exists>d \<in> set data. 8640000000000000 < \<bar>timestamp d\<bar>)
        \<longrightarrow> convertToCsv numberToString data = Inl RangeError)
   \<and> convertToCsv Number_toString [\<lparr>temp = 20, humidity = 50, timestamp = 0\<rparr>]
       = Inr (''Timestamp,Temperature,Humidity'' @ [CHR 0x0A]
              @ ''1970-01-01T00:00:00.000Z,20,50'' @ [CHR 0x0A])"
proof -
  have empty: "convertToCsv numberToString [] = Inr []"
    by (simp add: convertToCsv_def)
  have invalid: "(\<exists>d \<in> set data. 8640000000000000 < \<bar>timestamp d\<bar>)
        \<longrightarrow> convertToCsv numberToString data = Inl RangeError"
    using mapRows_invalid [of data] by (auto simp: convertToCsv_def)
  have "convertToCsv Number_toString [epochRow]
       = Inr (''Timestamp,Temperature,Humidity'' @ [CHR 0x0A]
              @ ''1970-01-01T00:00:00.000Z,20,50'' @ [CHR 0x0A])"
    by (subst convertToCsv_rows) (simp_all add: csvLine_epochRow timestamp_epochRow)
  then have example: "convertToCsv Number_toString [\<lparr>temp = 20, humidity = 50, timestamp = 0\<rparr>]
       = Inr (''Timestamp,Temperature,Humidity'' @ [CHR 0x0A]
              @ ''1970-01-01T00:00:00.000Z,20,50'' @ [CHR 0x0A])"
    by (simp only: epochRow_def)
  from empty convertToCsv_rows [of data numberToString] invalid example show ?thesis by blast
qed

text \<open>The sequence of two such points gives the header and two lines.\<close>

theorem convertToCsv_layout_witness:
  "convertToCsv Number_toString [epochRow, epochRow]
     = Inr (''Timestamp,Temperature,Humidity'' @ [CHR 0x0A]
            @ ''1970-01-01T00:00:00.000Z,20,50'' @ [CHR 0x0A]
            @ ''1970-01-01T00:00:00.000Z,20,50'' @ [CHR 0x0A])"
proof -
  have ne: "[epochRow, epochRow] \<noteq> []"
    by simp
  have ok: "\<forall>d \<in> set [epochRow, epochRow]. \<bar>timestamp d\<bar> \<le> 8640000000000000"
    by (simp add: timestamp_epochRow)
  from convertToCsv_layout [of Number_toString "[epochRow, epochRow]"] ne ok
  have "convertToCsv Number_toString [epochRow, epochRow]
          = Inr (''Timestamp,Temperature,Humidity'' @ [CHR 0x0A]
                 @ concat (map (csvLine Number_toString) [epochRow, epochRow]))"
    by blast
  then show ?thesis by (simp add: csvLine_epochRow)
qed

text \<open>
  Claim C6 as stated fails on a non-empty sequence with a timestamp that is no valid
  date: one millisecond beyond the range, \<open>toISOString\<close> throws.
\<close>

theorem convertToCsv_invalid_time:
  "convertToCsv Number_toString [\<lparr>temp = 20, humidity = 50, timestamp = 8640000000000001\<rparr>]
     = Inl RangeError"
  by (simp add: convertToCsv_def Date_toISOString_def)

end
